theory Spec2Isabelle
  imports Complex_Main "HOL-Library.Sublist"
begin

section \<open>Strings\<close>

text \<open>
  A Python \<open>str\<close> is a sequence of Unicode code points and \<open>len\<close> counts code points
  (the severity badges are single code points above the 8-bit range), so a string is
  modelled as the list of its code points. \<open>lit\<close> embeds an ASCII literal.
\<close>

type_synonym pystr = "nat list"

definition lit :: "string \<Rightarrow> pystr" where
  "lit s = map of_char s"

section \<open>The sliding-window rate limiter (app/core/rate\_limiter.py)\<close>

text \<open>
  \<open>time.time()\<close> is an input of every call; timestamps are modelled as real numbers
  (the float rounding of \<open>now - window_seconds\<close> is not modelled).
  \<open>_requests\<close> is a \<open>defaultdict(list)\<close>: reading a missing key yields the empty list
  and creates the entry.
\<close>

record rate_limiter =
  max_requests :: int
  window_seconds :: int
  requests :: "pystr \<rightharpoonup> real list"

definition RateLimiter :: "int \<Rightarrow> int \<Rightarrow> rate_limiter" where
  "RateLimiter n w = \<lparr>max_requests = n, window_seconds = w, requests = Map.empty\<rparr>"

text \<open>The list read by \<open>self._requests[key]\<close>.\<close>

definition stored :: "(pystr \<rightharpoonup> real list) \<Rightarrow> pystr \<Rightarrow> real list" where
  "stored m key = (case m key of None \<Rightarrow> [] | Some xs \<Rightarrow> xs)"

text \<open>
  The statement shared by \<open>is_allowed\<close> and \<open>remaining\<close>:
  \<open>self._requests[key] = [ts for ts in self._requests[key] if ts > window_start]\<close>.
\<close>

definition purge :: "rate_limiter \<Rightarrow> pystr \<Rightarrow> real \<Rightarrow> (pystr \<rightharpoonup> real list)" where
  "purge rl key now =
     (let window_start = now - real_of_int (window_seconds rl)
      in (requests rl)(key \<mapsto> filter (\<lambda>ts. ts > window_start) (stored (requests rl) key)))"

definition is_allowed :: "rate_limiter \<Rightarrow> pystr \<Rightarrow> real \<Rightarrow> bool \<times> rate_limiter" where
  "is_allowed rl key now =
     (let m = purge rl key now
      in if int (length (stored m key)) \<ge> max_requests rl
         then (False, rl\<lparr>requests := m\<rparr>)
         else (True, rl\<lparr>requests := m(key \<mapsto> stored m key @ [now])\<rparr>))"

definition remaining :: "rate_limiter \<Rightarrow> pystr \<Rightarrow> real \<Rightarrow> int \<times> rate_limiter" where
  "remaining rl key now =
     (let m = purge rl key now
      in (max 0 (max_requests rl - int (length (stored m key))), rl\<lparr>requests := m\<rparr>))"

definition reset_time :: "rate_limiter \<Rightarrow> pystr \<Rightarrow> real option \<times> rate_limiter" where
  "reset_time rl key =
     (case requests rl key of
        None \<Rightarrow> (None, rl\<lparr>requests := (requests rl)(key \<mapsto> [])\<rparr>)
      | Some [] \<Rightarrow> (None, rl)
      | Some (t0 # _) \<Rightarrow> (Some (t0 + real_of_int (window_seconds rl)), rl))"

subsection \<open>Sequences of calls\<close>

text \<open>A run of \<open>is_allowed\<close> calls on one key, at the given clock readings.\<close>

fun is_allowed_seq :: "rate_limiter \<Rightarrow> pystr \<Rightarrow> real list \<Rightarrow> bool list \<times> rate_limiter" where
  "is_allowed_seq rl key [] = ([], rl)"
| "is_allowed_seq rl key (t # ts) =
     (case is_allowed rl key t of (b, rl1) \<Rightarrow>
        (case is_allowed_seq rl1 key ts of (bs, rl2) \<Rightarrow> (b # bs, rl2)))"

text \<open>The call times whose call returned true.\<close>

definition admitted :: "real list \<Rightarrow> bool list \<Rightarrow> real list" where
  "admitted ts bs = map fst (filter snd (zip ts bs))"

text \<open>The trailing window of length \<open>w\<close> ending at \<open>t\<close>, as the purge reads it: \<open>t - w < a \<le> t\<close>.\<close>

definition in_window :: "int \<Rightarrow> real \<Rightarrow> real \<Rightarrow> bool" where
  "in_window w t a = (t - real_of_int w < a \<and> a \<le> t)"

text \<open>Any interleaving of the three operations on any keys.\<close>

datatype call = IsAllowed pystr real | Remaining pystr real | ResetTime pystr

fun do_call :: "rate_limiter \<Rightarrow> call \<Rightarrow> rate_limiter" where
  "do_call rl (IsAllowed key now) = snd (is_allowed rl key now)"
| "do_call rl (Remaining key now) = snd (remaining rl key now)"
| "do_call rl (ResetTime key) = snd (reset_time rl key)"

definition run_calls :: "rate_limiter \<Rightarrow> call list \<Rightarrow> rate_limiter" where
  "run_calls rl cs = foldl do_call rl cs"

section \<open>The payload model (app/models/error\_payload.py)\<close>

datatype ErrorSeverity = CRITICAL | ERROR | WARNING | INFO

text \<open>
  The three gauges are floats; a finite float is a rational number, and that is how a
  gauge is modelled (the payload validation admits only values between 0 and 100).
\<close>

record DeviceInfo =
  hostname :: "pystr option"
  os :: "pystr option"
  os_version :: "pystr option"
  device_ip_address :: "pystr option"
  architecture :: "pystr option"
  cpu_usage :: "rat option"
  memory_usage :: "rat option"
  disk_usage :: "rat option"

record UserInfo =
  user_id :: "pystr option"
  username :: "pystr option"
  email :: "pystr option"
  session_id :: "pystr option"
  user_ip_address :: "pystr option"

text \<open>A \<open>dict[str, str]\<close> is the list of its items, in insertion order.\<close>

record ErrorContext =
  request_url :: "pystr option"
  request_method :: "pystr option"
  request_headers :: "(pystr \<times> pystr) list option"
  request_body :: "pystr option"
  response_status :: "int option"
  response_body :: "pystr option"
  query_params :: "(pystr \<times> pystr) list option"

text \<open>
  A metadata value is any JSON value. Strings, integers, booleans and null are modelled;
  a float, a list or an object is carried as the text that \<open>str\<close> gives it.
\<close>

datatype json_value = JStr pystr | JInt int | JBool bool | JNull | JText pystr

record datetime =
  year :: nat
  month :: nat
  day :: nat
  hour :: nat
  minute :: nat
  second :: nat

record ErrorPayload =
  error_message :: pystr
  severity :: ErrorSeverity
  error_type :: "pystr option"
  error_code :: "pystr option"
  stacktrace :: "pystr option"
  file_name :: "pystr option"
  line_number :: "int option"
  function_name :: "pystr option"
  app_name :: "pystr option"
  app_version :: "pystr option"
  environment :: "pystr option"
  service_name :: "pystr option"
  component :: "pystr option"
  request_context :: "ErrorContext option"
  user :: "UserInfo option"
  device :: "DeviceInfo option"
  tags :: "(pystr \<times> pystr) list option"
  metadata :: "(pystr \<times> json_value) list option"
  timestamp :: datetime
  fingerprint :: "pystr option"

section \<open>Python string operations\<close>

definition nl :: pystr where
  "nl = [10]"

text \<open>\<open>sep.join(parts)\<close>.\<close>

fun join :: "pystr \<Rightarrow> pystr list \<Rightarrow> pystr" where
  "join sep [] = []"
| "join sep [x] = x"
| "join sep (x # y # ys) = x @ sep @ join sep (y # ys)"

text \<open>\<open>text.replace(c, r)\<close> for a one-character pattern \<open>c\<close>.\<close>

definition replace_char :: "nat \<Rightarrow> pystr \<Rightarrow> pystr \<Rightarrow> pystr" where
  "replace_char c r text = concat (map (\<lambda>x. if x = c then r else [x]) text)"

text \<open>\<open>s[:n]\<close>; a negative \<open>n\<close> counts from the end.\<close>

definition slice_to :: "pystr \<Rightarrow> int \<Rightarrow> pystr" where
  "slice_to s n = (if 0 \<le> n then take (nat n) s else take (length s - nat (- n)) s)"

text \<open>\<open>str\<close> of an integer.\<close>

fun str_nat :: "nat \<Rightarrow> pystr" where
  "str_nat n = (if n < 10 then [48 + n] else str_nat (n div 10) @ [48 + n mod 10])"

declare str_nat.simps [simp del]

definition str_int :: "int \<Rightarrow> pystr" where
  "str_int i = (if i < 0 then lit ''-'' @ str_nat (nat (- i)) else str_nat (nat i))"

text \<open>\<open>str\<close> of a metadata key or value.\<close>

fun str_json :: "json_value \<Rightarrow> pystr" where
  "str_json (JStr s) = s"
| "str_json (JInt i) = str_int i"
| "str_json (JBool b) = (if b then lit ''True'' else lit ''False'')"
| "str_json JNull = lit ''None''"
| "str_json (JText s) = s"

text \<open>
  The format \<open>:.1f\<close>: one decimal, the exact value rounded to the nearest tenth, ties to
  the even digit. (A negative zero, which prints as \<open>-0.0\<close>, has no rational.)
\<close>

definition round_half_even :: "rat \<Rightarrow> nat" where
  "round_half_even x =
     (let f = nat \<lfloor>x\<rfloor>; r = x - of_int \<lfloor>x\<rfloor>
      in if r < 1 / 2 then f else if 1 / 2 < r then f + 1 else if even f then f else f + 1)"

definition format_1f :: "rat \<Rightarrow> pystr" where
  "format_1f x =
     (let t = round_half_even (\<bar>x\<bar> * 10)
      in (if x < 0 then lit ''-'' else []) @ str_nat (t div 10) @ lit ''.'' @ str_nat (t mod 10))"

text \<open>Zero-padded decimal of the given width, as \<open>strftime\<close> prints a field.\<close>

definition zero_pad :: "nat \<Rightarrow> nat \<Rightarrow> pystr" where
  "zero_pad width n = replicate (width - length (str_nat n)) 48 @ str_nat n"

text \<open>\<open>timestamp.strftime("%Y-%m-%d %H:%M:%S UTC")\<close>.\<close>

definition strftime :: "datetime \<Rightarrow> pystr" where
  "strftime t =
     zero_pad 4 (year t) @ lit ''-'' @ zero_pad 2 (month t) @ lit ''-'' @ zero_pad 2 (day t)
     @ lit '' '' @ zero_pad 2 (hour t) @ lit '':'' @ zero_pad 2 (minute t) @ lit '':''
     @ zero_pad 2 (second t) @ lit '' UTC''"

text \<open>
  The guard \<open>if field:\<close> on an optional string, followed by lines built from the field:
  nothing for \<open>None\<close> and for the empty string.
\<close>

definition if_str :: "pystr option \<Rightarrow> (pystr \<Rightarrow> 'a list) \<Rightarrow> 'a list" where
  "if_str field f = (case field of None \<Rightarrow> [] | Some s \<Rightarrow> if s \<noteq> [] then f s else [])"

text \<open>The guard \<open>if field is not None:\<close>.\<close>

definition if_some :: "'b option \<Rightarrow> ('b \<Rightarrow> 'a list) \<Rightarrow> 'a list" where
  "if_some field f = (case field of None \<Rightarrow> [] | Some v \<Rightarrow> f v)"

section \<open>The message formatter (app/services/telegram\_service.py)\<close>

definition SEVERITY_EMOJI :: "(ErrorSeverity \<times> pystr) list" where
  "SEVERITY_EMOJI =
     [(CRITICAL, [0x1F534]), (ERROR, [0x1F7E0]), (WARNING, [0x1F7E1]), (INFO, [0x1F535])]"

definition SEVERITY_LABEL :: "(ErrorSeverity \<times> pystr) list" where
  "SEVERITY_LABEL =
     [(CRITICAL, lit ''CRITICAL''), (ERROR, lit ''ERROR''), (WARNING, lit ''WARNING''),
      (INFO, lit ''INFO'')]"

text \<open>\<open>d.get(key, default)\<close> on such a table.\<close>

definition get_default :: "('k \<times> 'v) list \<Rightarrow> 'k \<Rightarrow> 'v \<Rightarrow> 'v" where
  "get_default d k dflt = (case map_of d k of None \<Rightarrow> dflt | Some v \<Rightarrow> v)"

record TelegramService =
  bot_token :: pystr
  chat_id :: pystr
  max_stacktrace :: int
  max_metadata :: int

definition escape :: "pystr \<Rightarrow> pystr" where
  "escape text =
     replace_char 62 (lit ''&gt;'') (replace_char 60 (lit ''&lt;'')
       (replace_char 38 (lit ''&amp;'') text))"

text \<open>The blocks of \<open>_format_message\<close>, in the order of the source.\<close>

definition header_line :: "ErrorPayload \<Rightarrow> pystr \<Rightarrow> pystr" where
  "header_line payload error_id =
     (let emoji = get_default SEVERITY_EMOJI (severity payload) [0x26AA];
          label = get_default SEVERITY_LABEL (severity payload) (lit ''UNKNOWN'')
      in emoji @ lit '' <b>'' @ label @ lit ''</b> | <code>'' @ error_id @ lit ''</code>'')"

definition header_parts :: "ErrorPayload \<Rightarrow> pystr \<Rightarrow> pystr list" where
  "header_parts payload error_id = [header_line payload error_id, []]"

definition error_parts :: "ErrorPayload \<Rightarrow> pystr list" where
  "error_parts payload =
     [lit ''<b>Message:</b> '' @ escape (error_message payload)]
     @ if_str (error_type payload)
         (\<lambda>s. [lit ''<b>Type:</b> <code>'' @ escape s @ lit ''</code>''])
     @ if_str (error_code payload)
         (\<lambda>s. [lit ''<b>Code:</b> <code>'' @ escape s @ lit ''</code>''])"

definition location_parts :: "ErrorPayload \<Rightarrow> pystr list" where
  "location_parts payload =
     if_str (file_name payload) (\<lambda>s. [s])
     @ if_some (line_number payload) (\<lambda>n. [lit ''line '' @ str_int n])
     @ if_str (function_name payload) (\<lambda>s. [lit ''in '' @ s @ lit ''()''])"

definition location_block :: "ErrorPayload \<Rightarrow> pystr list" where
  "location_block payload =
     (if location_parts payload \<noteq> []
      then [lit ''<b>Location:</b> <code>''
            @ escape (join (lit '' | '') (location_parts payload)) @ lit ''</code>'']
      else [])
     @ [[]]"

definition app_lines :: "ErrorPayload \<Rightarrow> pystr list" where
  "app_lines payload =
     if_str (app_name payload) (\<lambda>s. [lit ''  App: '' @ escape s])
     @ if_str (app_version payload) (\<lambda>s. [lit ''  Version: '' @ escape s])
     @ if_str (environment payload) (\<lambda>s. [lit ''  Env: '' @ escape s])
     @ if_str (service_name payload) (\<lambda>s. [lit ''  Service: '' @ escape s])
     @ if_str (component payload) (\<lambda>s. [lit ''  Component: '' @ escape s])"

text \<open>A titled block: nothing when it has no lines, else the title, the lines, a blank.\<close>

definition block :: "pystr \<Rightarrow> pystr list \<Rightarrow> pystr list" where
  "block title lines = (if lines \<noteq> [] then [title] @ lines @ [[]] else [])"

definition ctx_lines :: "ErrorContext \<Rightarrow> pystr list" where
  "ctx_lines ctx =
     (case (request_method ctx, request_url ctx) of
        (Some m, Some u) \<Rightarrow>
          if m \<noteq> [] \<and> u \<noteq> [] then [lit ''  '' @ escape m @ lit '' '' @ escape u]
          else if u \<noteq> [] then [lit ''  URL: '' @ escape u]
          else []
      | (None, Some u) \<Rightarrow> if u \<noteq> [] then [lit ''  URL: '' @ escape u] else []
      | (_, None) \<Rightarrow> [])
     @ if_some (response_status ctx) (\<lambda>n. [lit ''  Status: '' @ str_int n])
     @ (case query_params ctx of
          None \<Rightarrow> []
        | Some ps \<Rightarrow>
            if ps \<noteq> []
            then [lit ''  Params: ''
                  @ escape (join (lit '', '') (map (\<lambda>(k, v). k @ lit ''='' @ v) ps))]
            else [])"

definition user_lines :: "UserInfo \<Rightarrow> pystr list" where
  "user_lines u =
     if_str (user_id u) (\<lambda>s. [lit ''  ID: <code>'' @ escape s @ lit ''</code>''])
     @ if_str (username u) (\<lambda>s. [lit ''  Username: '' @ escape s])
     @ if_str (email u) (\<lambda>s. [lit ''  Email: '' @ escape s])
     @ if_str (session_id u) (\<lambda>s. [lit ''  Session: <code>'' @ escape s @ lit ''</code>''])
     @ if_str (user_ip_address u) (\<lambda>s. [lit ''  IP: <code>'' @ escape s @ lit ''</code>''])"

definition resource_parts :: "DeviceInfo \<Rightarrow> pystr list" where
  "resource_parts d =
     if_some (cpu_usage d) (\<lambda>x. [lit ''CPU '' @ format_1f x @ lit ''%''])
     @ if_some (memory_usage d) (\<lambda>x. [lit ''MEM '' @ format_1f x @ lit ''%''])
     @ if_some (disk_usage d) (\<lambda>x. [lit ''DISK '' @ format_1f x @ lit ''%''])"

definition dev_lines :: "DeviceInfo \<Rightarrow> pystr list" where
  "dev_lines d =
     if_str (hostname d) (\<lambda>s. [lit ''  Host: <code>'' @ escape s @ lit ''</code>''])
     @ if_str (os d)
         (\<lambda>s. [lit ''  OS: '' @ escape (s @ concat (if_str (os_version d) (\<lambda>v. [lit '' '' @ v])))])
     @ if_str (device_ip_address d) (\<lambda>s. [lit ''  IP: <code>'' @ escape s @ lit ''</code>''])
     @ if_str (architecture d) (\<lambda>s. [lit ''  Arch: '' @ escape s])
     @ (if resource_parts d \<noteq> []
        then [lit ''  Resources: '' @ join (lit '' | '') (resource_parts d)]
        else [])"

definition tags_parts :: "ErrorPayload \<Rightarrow> pystr list" where
  "tags_parts payload =
     (case tags payload of
        None \<Rightarrow> []
      | Some ts \<Rightarrow>
          if ts \<noteq> []
          then [lit ''<b>Tags:</b> ''
                @ join (lit '' '')
                    (map (\<lambda>(k, v). lit ''<code>#'' @ escape k @ lit '':'' @ escape v @ lit ''</code>'') ts),
                []]
          else [])"

definition metadata_parts :: "TelegramService \<Rightarrow> ErrorPayload \<Rightarrow> pystr list" where
  "metadata_parts self payload =
     (case metadata payload of
        None \<Rightarrow> []
      | Some ms \<Rightarrow>
          if ms \<noteq> []
          then (let meta_str = join nl
                      (map (\<lambda>(k, v). lit ''  '' @ escape k @ lit '': '' @ escape (str_json v))
                         (take 20 ms));
                    meta_str = (if int (length meta_str) > max_metadata self
                                then slice_to meta_str (max_metadata self)
                                     @ nl @ lit ''  ... (truncated)''
                                else meta_str)
                in [lit ''<b>Metadata</b>'', lit ''<pre>'' @ meta_str @ lit ''</pre>'', []])
          else [])"

definition stacktrace_parts :: "TelegramService \<Rightarrow> ErrorPayload \<Rightarrow> pystr list" where
  "stacktrace_parts self payload =
     if_str (stacktrace payload)
       (\<lambda>trace.
          (let trace = (if int (length trace) > max_stacktrace self
                        then slice_to trace (max_stacktrace self) @ nl @ lit ''... (truncated)''
                        else trace)
           in [lit ''<b>Stacktrace</b>'', lit ''<pre>'' @ escape trace @ lit ''</pre>'', []]))"

definition footer_parts :: "ErrorPayload \<Rightarrow> pystr list" where
  "footer_parts payload =
     [lit ''<i>'' @ strftime (timestamp payload) @ lit ''</i>'']
     @ if_str (fingerprint payload)
         (\<lambda>s. [lit ''Fingerprint: <code>'' @ escape s @ lit ''</code>''])"

definition message_parts :: "TelegramService \<Rightarrow> ErrorPayload \<Rightarrow> pystr \<Rightarrow> pystr list" where
  "message_parts self payload error_id =
     header_parts payload error_id
     @ error_parts payload
     @ location_block payload
     @ block (lit ''<b>Application</b>'') (app_lines payload)
     @ if_some (request_context payload) (\<lambda>ctx. block (lit ''<b>Request</b>'') (ctx_lines ctx))
     @ if_some (user payload) (\<lambda>u. block (lit ''<b>User</b>'') (user_lines u))
     @ if_some (device payload) (\<lambda>d. block (lit ''<b>Server</b>'') (dev_lines d))
     @ tags_parts payload
     @ metadata_parts self payload
     @ stacktrace_parts self payload
     @ footer_parts payload"

definition format_message :: "TelegramService \<Rightarrow> ErrorPayload \<Rightarrow> pystr \<Rightarrow> pystr" where
  "format_message self payload error_id =
     (let message = join nl (message_parts self payload error_id)
      in if length message > 4096
         then take 4080 message @ nl @ nl @ lit ''... (truncated)''
         else message)"

section \<open>Delivery and the webhook routes (telegram\_service.py, routes/webhook.py)\<close>

text \<open>
  What the HTTP client does with the \<open>sendMessage\<close> request: it raises a timeout, raises
  another exception, or returns a response with a status code and a body. A body is either
  not a JSON object (then \<open>response.json()\<close> or \<open>data.get\<close> raises) or a JSON object,
  of which only the truth value of \<open>data.get("ok")\<close> is read.
\<close>

datatype response_body = NotJson | Json bool

datatype post_result = TimeoutException | OtherException | Response int response_body

text \<open>
  The state the routes act on: the module-level rate limiter, the number of error ids
  drawn so far from \<open>secrets.token_hex\<close>, and the texts posted to the provider so far.
\<close>

record world =
  limiter :: rate_limiter
  ids_generated :: nat
  posts :: "pystr list"

text \<open>
  The outcome of a route: the \<open>WebhookResponse\<close> of a delivered report (message and error
  id), the HTTP 429 exception of a rate-limited one (remaining and reset time), or the
  HTTP 502 exception of a failed delivery (detail).
\<close>

datatype outcome = Delivered pystr pystr | RateLimited int "real option" | DeliveryFailed pystr

definition generate_error_id :: "(nat \<Rightarrow> pystr) \<Rightarrow> world \<Rightarrow> pystr \<times> world" where
  "generate_error_id token_hex w =
     (token_hex (ids_generated w), w\<lparr>ids_generated := Suc (ids_generated w)\<rparr>)"

text \<open>
  \<open>send_error_notification\<close>, with the HTTP client as the function \<open>post\<close> from the text
  of the request to what the client does.
\<close>

definition send_error_notification ::
  "TelegramService \<Rightarrow> (pystr \<Rightarrow> post_result) \<Rightarrow> ErrorPayload \<Rightarrow> pystr \<Rightarrow> world \<Rightarrow> bool \<times> world"
where
  "send_error_notification self post payload error_id w =
     (let message = format_message self payload error_id;
          w1 = w\<lparr>posts := posts w @ [message]\<rparr>
      in (case post message of
            Response status_code body \<Rightarrow>
              if status_code \<noteq> 200 then (False, w1)
              else (case body of
                      Json ok \<Rightarrow> if \<not> ok then (False, w1) else (True, w1)
                    | NotJson \<Rightarrow> (False, w1))
          | TimeoutException \<Rightarrow> (False, w1)
          | OtherException \<Rightarrow> (False, w1)))"

text \<open>\<open>payload.fingerprint or "global"\<close>.\<close>

definition rate_key :: "ErrorPayload \<Rightarrow> pystr" where
  "rate_key payload =
     (case fingerprint payload of
        None \<Rightarrow> lit ''global''
      | Some s \<Rightarrow> if s \<noteq> [] then s else lit ''global'')"

text \<open>
  \<open>receive_error\<close>; \<open>now1\<close> and \<open>now2\<close> are the clock readings of the \<open>is_allowed\<close>
  and the \<open>remaining\<close> call.
\<close>

definition receive_error ::
  "TelegramService \<Rightarrow> (pystr \<Rightarrow> post_result) \<Rightarrow> (nat \<Rightarrow> pystr) \<Rightarrow> ErrorPayload \<Rightarrow>
     real \<Rightarrow> real \<Rightarrow> world \<Rightarrow> outcome \<times> world"
where
  "receive_error self post token_hex payload now1 now2 w =
     (case is_allowed (limiter w) (rate_key payload) now1 of
        (False, rl1) \<Rightarrow>
          (case remaining rl1 (rate_key payload) now2 of (rem, rl2) \<Rightarrow>
             (case reset_time rl2 (rate_key payload) of (rt, rl3) \<Rightarrow>
                (RateLimited rem rt, w\<lparr>limiter := rl3\<rparr>)))
      | (True, rl1) \<Rightarrow>
          (case generate_error_id token_hex (w\<lparr>limiter := rl1\<rparr>) of (error_id, w1) \<Rightarrow>
             (case send_error_notification self post payload error_id w1 of (sent, w2) \<Rightarrow>
                if \<not> sent
                then (DeliveryFailed
                        (lit ''Failed to deliver notification to Telegram. Check bot configuration.''),
                      w2)
                else (Delivered (lit ''Error notification delivered successfully'') error_id,
                      w2))))"

definition test_payload :: "datetime \<Rightarrow> ErrorPayload" where
  "test_payload utcnow =
     \<lparr>error_message = lit ''This is a test notification from Jahiz Error Tracker'',
      severity = INFO,
      error_type = Some (lit ''TestNotification''),
      error_code = None, stacktrace = None, file_name = None, line_number = None,
      function_name = None,
      app_name = Some (lit ''Jahiz Error Tracker''),
      app_version = None,
      environment = Some (lit ''test''),
      service_name = None, component = None, request_context = None, user = None,
      device = None, tags = None, metadata = None,
      timestamp = utcnow,
      fingerprint = None\<rparr>"

definition test_notification ::
  "TelegramService \<Rightarrow> (pystr \<Rightarrow> post_result) \<Rightarrow> (nat \<Rightarrow> pystr) \<Rightarrow> datetime \<Rightarrow>
     world \<Rightarrow> outcome \<times> world"
where
  "test_notification self post token_hex utcnow w =
     (case generate_error_id token_hex w of (error_id, w1) \<Rightarrow>
        (case send_error_notification self post (test_payload utcnow) error_id w1 of (sent, w2) \<Rightarrow>
           if \<not> sent
           then (DeliveryFailed
                   (lit ''Failed to send test notification. Verify TELEGRAM_BOT_TOKEN and TELEGRAM_CHAT_ID.''),
                 w2)
           else (Delivered (lit ''Test notification sent successfully! Check your Telegram.'')
                   error_id,
                 w2)))"

subsection \<open>Fixtures for the concrete runs\<close>

definition example_service :: TelegramService where
  "example_service =
     \<lparr>bot_token = lit ''token'', chat_id = lit ''1'', max_stacktrace = 2000, max_metadata = 1000\<rparr>"

definition example_token_hex :: "nat \<Rightarrow> pystr" where
  "example_token_hex k = lit ''0123456789abcdef01234567''"

definition example_utcnow :: datetime where
  "example_utcnow = \<lparr>year = 2024, month = 1, day = 2, hour = 3, minute = 4, second = 5\<rparr>"

text \<open>A limiter of capacity 1 whose global key was admitted once, at time 0.\<close>

definition exhausted_world :: world where
  "exhausted_world =
     \<lparr>limiter = snd (is_allowed (RateLimiter 1 60) (lit ''global'') 0),
      ids_generated = 0, posts = []\<rparr>"

definition fresh_world :: world where
  "fresh_world = \<lparr>limiter = RateLimiter 30 60, ids_generated = 0, posts = []\<rparr>"

text \<open>A record with only the required fields and the timestamp.\<close>

definition minimal_payload :: "pystr \<Rightarrow> ErrorPayload" where
  "minimal_payload msg =
     \<lparr>error_message = msg, severity = ERROR, error_type = None, error_code = None,
      stacktrace = None, file_name = None, line_number = None, function_name = None,
      app_name = None, app_version = None, environment = None, service_name = None,
      component = None, request_context = None, user = None, device = None, tags = None,
      metadata = None, timestamp = example_utcnow, fingerprint = None\<rparr>"

text \<open>A message of 4000 letters \<open>a\<close>, the longest the payload validation admits.\<close>

definition long_payload :: ErrorPayload where
  "long_payload = minimal_payload (replicate 4000 97)"

text \<open>One metadata entry \<open>{"k": "a...a&"}\<close>, its value 993 letters \<open>a\<close> and an ampersand.\<close>

definition amp_payload :: ErrorPayload where
  "amp_payload =
     (minimal_payload (lit ''boom''))
       \<lparr>metadata := Some [(lit ''k'', JStr (replicate 993 97 @ lit ''&''))]\<rparr>"

section \<open>Escaped text\<close>

text \<open>
  In escaped text every ampersand opens one of the three entities that \<open>escape\<close> writes.
\<close>

fun well_escaped :: "pystr \<Rightarrow> bool" where
  "well_escaped [] = True"
| "well_escaped (c # cs) =
     (if c = 38
      then (prefix (lit ''amp;'') cs \<or> prefix (lit ''lt;'') cs \<or> prefix (lit ''gt;'') cs)
           \<and> well_escaped cs
      else well_escaped cs)"

section \<open>Properties of the rate limiter\<close>

lemma stored_upd [simp]: "stored (m(k \<mapsto> xs)) k = xs"
  by (simp add: stored_def)

lemma stored_upd_other [simp]: "k' \<noteq> k \<Longrightarrow> stored (m(k \<mapsto> xs)) k' = stored m k'"
  by (simp add: stored_def)

lemma stored_purge [simp]:
  "stored (purge rl key now) key =
     filter (\<lambda>ts. now - real_of_int (window_seconds rl) < ts) (stored (requests rl) key)"
  by (simp add: purge_def)

lemma stored_purge_other [simp]:
  "k \<noteq> key \<Longrightarrow> stored (purge rl key now) k = stored (requests rl) k"
  by (simp add: purge_def)

lemma is_allowed_params [simp]:
  "max_requests (snd (is_allowed rl key now)) = max_requests rl"
  "window_seconds (snd (is_allowed rl key now)) = window_seconds rl"
  by (simp_all add: is_allowed_def Let_def)

lemma remaining_params [simp]:
  "max_requests (snd (remaining rl key now)) = max_requests rl"
  "window_seconds (snd (remaining rl key now)) = window_seconds rl"
  by (simp_all add: remaining_def Let_def)

lemma reset_time_params [simp]:
  "max_requests (snd (reset_time rl key)) = max_requests rl"
  "window_seconds (snd (reset_time rl key)) = window_seconds rl"
  by (simp_all add: reset_time_def split: option.splits list.splits)

subsection \<open>The capacity bound on every stored list\<close>

lemma length_filter_le_int: "int (length xs) \<le> n \<Longrightarrow> int (length (filter P xs)) \<le> n"
  using length_filter_le [of P xs] by linarith

lemma stored_is_allowed_le:
  assumes "int (length (stored (requests rl) k)) \<le> max 0 (max_requests rl)"
  shows "int (length (stored (requests (snd (is_allowed rl key now))) k)) \<le> max 0 (max_requests rl)"
proof (cases "k = key")
  case True
  have "int (length (filter (\<lambda>ts. now - real_of_int (window_seconds rl) < ts)
          (stored (requests rl) key))) \<le> max 0 (max_requests rl)"
    using assms True by (simp add: length_filter_le_int)
  then show ?thesis using True by (simp add: is_allowed_def Let_def)
next
  case False
  then show ?thesis using assms by (auto simp add: is_allowed_def Let_def)
qed

lemma stored_remaining_le:
  assumes "int (length (stored (requests rl) k)) \<le> max 0 (max_requests rl)"
  shows "int (length (stored (requests (snd (remaining rl key now))) k)) \<le> max 0 (max_requests rl)"
proof (cases "k = key")
  case True
  then show ?thesis using assms by (simp add: remaining_def Let_def length_filter_le_int)
next
  case False
  then show ?thesis using assms by (simp add: remaining_def Let_def)
qed

lemma stored_reset_time [simp]:
  "stored (requests (snd (reset_time rl key))) k = stored (requests rl) k"
  by (simp add: reset_time_def stored_def split: option.splits list.splits)

lemma do_call_max [simp]: "max_requests (do_call rl c) = max_requests rl"
  by (cases c) simp_all

lemma do_call_window [simp]: "window_seconds (do_call rl c) = window_seconds rl"
  by (cases c) simp_all

lemma do_call_le:
  assumes "\<forall>k. int (length (stored (requests rl) k)) \<le> max 0 (max_requests rl)"
  shows "int (length (stored (requests (do_call rl c)) k)) \<le> max 0 (max_requests rl)"
  using assms by (cases c) (simp_all add: stored_is_allowed_le stored_remaining_le)

lemma run_calls_le:
  assumes "\<forall>k. int (length (stored (requests rl) k)) \<le> max 0 (max_requests rl)"
  shows "max_requests (run_calls rl cs) = max_requests rl \<and>
         window_seconds (run_calls rl cs) = window_seconds rl \<and>
         (\<forall>k. int (length (stored (requests (run_calls rl cs)) k)) \<le> max 0 (max_requests rl))"
  using assms
proof (induction cs arbitrary: rl)
  case Nil
  then show ?case by (simp add: run_calls_def)
next
  case (Cons c cs)
  have "\<forall>k. int (length (stored (requests (do_call rl c)) k)) \<le> max 0 (max_requests (do_call rl c))"
    using Cons.prems by (simp add: do_call_le)
  from Cons.IH [OF this] show ?case by (simp add: run_calls_def)
qed

lemma reachable_le:
  "max_requests (run_calls (RateLimiter n w) cs) = n \<and>
   window_seconds (run_calls (RateLimiter n w) cs) = w \<and>
   (\<forall>k. int (length (stored (requests (run_calls (RateLimiter n w) cs)) k)) \<le> max 0 n)"
proof -
  have "\<forall>k. int (length (stored (requests (RateLimiter n w)) k)) \<le> max 0 (max_requests (RateLimiter n w))"
    by (simp add: RateLimiter_def stored_def)
  from run_calls_le [OF this, of cs] show ?thesis by (simp add: RateLimiter_def)
qed

text \<open>
  Claim C10. Starting from the empty limiter with capacity \<open>n \<ge> 0\<close>, after any sequence
  of \<open>is_allowed\<close>, \<open>remaining\<close> and \<open>reset_time\<close> calls (any keys, any clock readings)
  the stored timestamp list of every key has length at most \<open>n\<close>.
\<close>

theorem capacity_invariant:
  assumes "0 \<le> n"
  shows "int (length (stored (requests (run_calls (RateLimiter n w) cs)) k)) \<le> n"
proof -
  have "int (length (stored (requests (run_calls (RateLimiter n w) cs)) k)) \<le> max 0 n"
    using reachable_le [of n w cs] by simp
  then show ?thesis using assms by simp
qed

theorem capacity_invariant_witness:
  "(0::int) \<le> 1 \<and>
   int (length (stored (requests (run_calls (RateLimiter 1 60)
      [IsAllowed (lit ''k'') 0, IsAllowed (lit ''k'') 1, Remaining (lit ''k'') 2,
       ResetTime (lit ''k'')])) (lit ''k''))) \<le> 1"
  using capacity_invariant [of 1 60 "[IsAllowed (lit ''k'') 0, IsAllowed (lit ''k'') 1,
       Remaining (lit ''k'') 2, ResetTime (lit ''k'')]" "lit ''k''"]
  by simp

subsection \<open>The sliding-window bound\<close>

lemma is_allowed_seq_snoc:
  "is_allowed_seq rl key (ts @ [t]) =
     (case is_allowed_seq rl key ts of (bs, rl1) \<Rightarrow>
        (case is_allowed rl1 key t of (b, rl2) \<Rightarrow> (bs @ [b], rl2)))"
  by (induction ts arbitrary: rl) (auto split: prod.splits)

lemma is_allowed_seq_Cons:
  "is_allowed_seq rl key (t # ts) =
     (fst (is_allowed rl key t) # fst (is_allowed_seq (snd (is_allowed rl key t)) key ts),
      snd (is_allowed_seq (snd (is_allowed rl key t)) key ts))"
  by (simp split: prod.splits)

lemma length_is_allowed_seq [simp]: "length (fst (is_allowed_seq rl key ts)) = length ts"
  by (induction ts arbitrary: rl) (simp_all add: is_allowed_seq_Cons del: is_allowed_seq.simps(2))

lemma admitted_snoc:
  "length bs = length ts \<Longrightarrow> admitted (ts @ [t]) (bs @ [b]) = admitted ts bs @ (if b then [t] else [])"
  by (simp add: admitted_def)

lemma is_allowed_seq_params [simp]:
  "max_requests (snd (is_allowed_seq rl key ts)) = max_requests rl"
  "window_seconds (snd (is_allowed_seq rl key ts)) = window_seconds rl"
proof (induction ts arbitrary: rl)
  case Nil
  { case 1 show ?case by simp }
  { case 2 show ?case by simp }
next
  case (Cons t ts)
  { case 1 show ?case using Cons.IH(1) [of "snd (is_allowed rl key t)"]
      by (simp add: is_allowed_seq_Cons del: is_allowed_seq.simps(2)) }
  { case 2 show ?case using Cons.IH(2) [of "snd (is_allowed rl key t)"]
      by (simp add: is_allowed_seq_Cons del: is_allowed_seq.simps(2)) }
qed

lemma fst_is_allowed:
  "fst (is_allowed rl key now) =
     (int (length (filter (\<lambda>ts. now - real_of_int (window_seconds rl) < ts) (stored (requests rl) key))) < max_requests rl)"
  by (simp add: is_allowed_def Let_def)

lemma stored_is_allowed:
  "stored (requests (snd (is_allowed rl key now))) key =
     filter (\<lambda>ts. now - real_of_int (window_seconds rl) < ts) (stored (requests rl) key)
       @ (if fst (is_allowed rl key now) then [now] else [])"
  by (simp add: is_allowed_def Let_def)

lemma length_filter_mono:
  "(\<And>x. x \<in> set xs \<Longrightarrow> P x \<Longrightarrow> Q x) \<Longrightarrow> length (filter P xs) \<le> length (filter Q xs)"
  by (induction xs) auto

lemma seq_stored:
  assumes "sorted ts" "0 < w"
  shows "stored (requests (snd (is_allowed_seq (RateLimiter n w) key ts))) key =
           filter (\<lambda>a. last ts - real_of_int w < a) (admitted ts (fst (is_allowed_seq (RateLimiter n w) key ts)))"
  using assms(1)
proof (induction ts rule: rev_induct)
  case Nil
  then show ?case by (simp add: RateLimiter_def stored_def admitted_def)
next
  case (snoc t' ts)
  let ?R = "RateLimiter n w"
  let ?bs = "fst (is_allowed_seq ?R key ts)"
  let ?rl1 = "snd (is_allowed_seq ?R key ts)"
  let ?A = "admitted ts ?bs"
  let ?b = "fst (is_allowed ?rl1 key t')"
  have srt: "sorted ts" using snoc.prems by (simp add: sorted_append)
  have IH: "stored (requests ?rl1) key = filter (\<lambda>a. last ts - real_of_int w < a) ?A"
    using snoc.IH [OF srt] .
  have w1: "window_seconds ?rl1 = w" by (simp add: RateLimiter_def)
  have P: "filter (\<lambda>a. t' - real_of_int w < a) (stored (requests ?rl1) key) = filter (\<lambda>a. t' - real_of_int w < a) ?A"
  proof (cases "ts = []")
    case True
    then show ?thesis by (simp add: RateLimiter_def stored_def admitted_def)
  next
    case False
    then have "last ts \<le> t'" using snoc.prems by (simp add: sorted_append)
    then have "\<And>a. (last ts - real_of_int w < a \<and> t' - real_of_int w < a) = (t' - real_of_int w < a)"
      by auto
    then show ?thesis by (simp add: IH)
  qed
  have seq: "is_allowed_seq ?R key (ts @ [t']) = (?bs @ [?b], snd (is_allowed ?rl1 key t'))"
    by (simp add: is_allowed_seq_snoc split: prod.splits)
  have A': "admitted (ts @ [t']) (?bs @ [?b]) = ?A @ (if ?b then [t'] else [])"
    by (simp add: admitted_snoc)
  have "stored (requests (snd (is_allowed ?rl1 key t'))) key
          = filter (\<lambda>a. t' - real_of_int w < a) ?A @ (if ?b then [t'] else [])"
    using stored_is_allowed [of ?rl1 key t'] P by (simp only: w1)
  then show ?case using assms(2) by (simp add: seq A')
qed

lemma seq_window:
  assumes "sorted ts" "0 < w" "0 \<le> n"
  shows "int (length (filter (in_window w t) (admitted ts (fst (is_allowed_seq (RateLimiter n w) key ts))))) \<le> n"
  using assms(1)
proof (induction ts rule: rev_induct)
  case Nil
  then show ?case using assms(3) by (simp add: admitted_def)
next
  case (snoc t' ts)
  let ?R = "RateLimiter n w"
  let ?bs = "fst (is_allowed_seq ?R key ts)"
  let ?rl1 = "snd (is_allowed_seq ?R key ts)"
  let ?A = "admitted ts ?bs"
  let ?b = "fst (is_allowed ?rl1 key t')"
  let ?P = "filter (\<lambda>a. t' - real_of_int w < a) ?A"
  have srt: "sorted ts" using snoc.prems by (simp add: sorted_append)
  have IH: "int (length (filter (in_window w t) ?A)) \<le> n" using snoc.IH [OF srt] .
  have w1: "window_seconds ?rl1 = w" and n1: "max_requests ?rl1 = n" by (simp_all add: RateLimiter_def)
  have st: "stored (requests ?rl1) key = filter (\<lambda>a. last ts - real_of_int w < a) ?A"
    using seq_stored [OF srt assms(2)] .
  have P: "filter (\<lambda>a. t' - real_of_int w < a) (stored (requests ?rl1) key) = ?P"
  proof (cases "ts = []")
    case True
    then show ?thesis by (simp add: RateLimiter_def stored_def admitted_def)
  next
    case False
    then have "last ts \<le> t'" using snoc.prems by (simp add: sorted_append)
    then have "\<And>a. (last ts - real_of_int w < a \<and> t' - real_of_int w < a) = (t' - real_of_int w < a)"
      by auto
    then show ?thesis by (simp add: st)
  qed
  have b: "?b = (int (length ?P) < n)"
    using fst_is_allowed [of ?rl1 key t'] P by (simp only: w1 n1)
  have seq: "is_allowed_seq ?R key (ts @ [t']) = (?bs @ [?b], snd (is_allowed ?rl1 key t'))"
    by (simp add: is_allowed_seq_snoc split: prod.splits)
  have A': "admitted (ts @ [t']) (?bs @ [?b]) = ?A @ (if ?b then [t'] else [])"
    by (simp add: admitted_snoc)
  show ?case
  proof (cases "?b \<and> in_window w t t'")
    case False
    then show ?thesis using IH by (auto simp add: seq A')
  next
    case True
    then have "t' \<le> t" by (simp add: in_window_def)
    then have "length (filter (in_window w t) ?A) \<le> length ?P"
      by (intro length_filter_mono) (auto simp: in_window_def)
    moreover have "int (length ?P) < n" using True b by simp
    moreover have "admitted (ts @ [t']) (?bs @ [True]) = ?A @ [t']"
      by (simp add: admitted_snoc)
    ultimately show ?thesis using True by (simp add: seq)
  qed
qed

lemma window_empty: "w \<le> 0 \<Longrightarrow> filter (in_window w t) xs = []"
  by (induction xs) (auto simp: in_window_def)

text \<open>
  Claim C3. For a run of \<open>is_allowed\<close> calls on one key of a fresh limiter with capacity
  \<open>n \<ge> 0\<close> and window \<open>w\<close>, at non-decreasing clock readings, the number of calls that
  returned true and whose call time lies in the trailing window \<open>(t - w, t]\<close> is at most
  \<open>n\<close>, for every \<open>t\<close>. With \<open>n = 2\<close>, \<open>w = 60\<close> and three calls at time 0 the results
  are true, true, false and \<open>remaining\<close> is then 0.
\<close>

theorem sliding_window_bound:
  assumes "sorted ts" "0 \<le> n"
  shows "int (length (filter (in_window w t)
            (admitted ts (fst (is_allowed_seq (RateLimiter n w) key ts))))) \<le> n
         \<and> fst (is_allowed_seq (RateLimiter 2 60) key [0, 0, 0]) = [True, True, False]
         \<and> fst (remaining (snd (is_allowed_seq (RateLimiter 2 60) key [0, 0, 0])) key 0) = 0"
proof -
  have 1: "int (length (filter (in_window w t)
            (admitted ts (fst (is_allowed_seq (RateLimiter n w) key ts))))) \<le> n"
  proof (cases "0 < w")
    case True
    then show ?thesis using seq_window [OF assms(1) True assms(2)] by simp
  next
    case False
    then show ?thesis using assms(2) by (simp add: window_empty)
  qed
  have 2: "is_allowed_seq (RateLimiter 2 60) key [0, 0, 0]
           = ([True, True, False], \<lparr>max_requests = 2, window_seconds = 60, requests = [key \<mapsto> [0, 0]]\<rparr>)"
    by (simp add: is_allowed_def RateLimiter_def purge_def stored_def Let_def)
  have 3: "fst (remaining \<lparr>max_requests = 2, window_seconds = 60, requests = [key \<mapsto> [0, 0]]\<rparr> key 0) = 0"
    by (simp add: remaining_def purge_def stored_def Let_def)
  show ?thesis using 1 2 3 by simp
qed

theorem sliding_window_bound_witness:
  "sorted [0, 10, 20, 70 :: real] \<and> (0::int) \<le> 2
   \<and> fst (is_allowed_seq (RateLimiter 2 60) (lit ''k'') [0, 10, 20, 70]) = [True, True, False, True]
   \<and> int (length (filter (in_window 60 70)
        (admitted [0, 10, 20, 70] (fst (is_allowed_seq (RateLimiter 2 60) (lit ''k'') [0, 10, 20, 70]))))) \<le> 2"
proof -
  have h: "sorted [0, 10, 20, 70 :: real]" by simp
  have r: "fst (is_allowed_seq (RateLimiter 2 60) (lit ''k'') [0, 10, 20, 70]) = [True, True, False, True]"
    by code_simp
  show ?thesis
    using sliding_window_bound [OF h, of 2 60 70 "lit ''k''"] h r by simp
qed

subsection \<open>The frame of \<open>is_allowed\<close> and the reading of \<open>reset_time\<close>\<close>

lemma filter_length_eq: "length (filter P xs) = length xs \<Longrightarrow> filter P xs = xs"
  by (metis filter_True length_filter_less less_irrefl_nat)

lemma denied_unchanged:
  assumes cap: "int (length xs) \<le> max 0 n" and den: "n \<le> int (length (filter P xs))"
  shows "filter P xs = xs"
proof -
  have "length (filter P xs) \<le> length xs" by simp
  with cap den have "length (filter P xs) = length xs" by linarith
  then show ?thesis by (rule filter_length_eq)
qed

text \<open>
  Claim C8. In every state a limiter can reach from its construction, a denied
  \<open>is_allowed\<close> call leaves the stored list of every key as it was (the purge removes
  nothing when the purged list still fills the capacity), and an allowed call leaves the
  purged list with the current time appended; the lists of the other keys and the two
  parameters never change. In any state at all, the dictionary after a denied call is the
  purged one, and after an allowed call the purged one with the time appended.
\<close>

theorem is_allowed_frame:
  "(let rl = run_calls (RateLimiter n w) cs; r = is_allowed rl key now;
        purged = filter (\<lambda>ts. now - real_of_int w < ts) (stored (requests rl) key)
    in fst r = (int (length purged) < n)
       \<and> stored (requests (snd r)) k =
            (if k = key \<and> fst r then purged @ [now] else stored (requests rl) k)
       \<and> max_requests (snd r) = n \<and> window_seconds (snd r) = w)
   \<and> requests (snd (is_allowed rl0 key now)) =
        (if fst (is_allowed rl0 key now)
         then (purge rl0 key now)(key \<mapsto> stored (purge rl0 key now) key @ [now])
         else purge rl0 key now)"
proof -
  let ?rl = "run_calls (RateLimiter n w) cs"
  let ?purged = "filter (\<lambda>ts. now - real_of_int w < ts) (stored (requests ?rl) key)"
  have par: "max_requests ?rl = n" "window_seconds ?rl = w"
    and cap: "int (length (stored (requests ?rl) key)) \<le> max 0 n"
    using reachable_le [of n w cs] by simp_all
  have b: "fst (is_allowed ?rl key now) = (int (length ?purged) < n)"
    by (simp add: is_allowed_def Let_def par) 
  have sk: "stored (requests (snd (is_allowed ?rl key now))) key =
          (if fst (is_allowed ?rl key now) then ?purged @ [now] else stored (requests ?rl) key)"
  proof (cases "int (length ?purged) < n")
    case True
    then show ?thesis by (simp add: is_allowed_def Let_def par)
  next
    case False
    then have "?purged = stored (requests ?rl) key"
      using denied_unchanged [OF cap, of "\<lambda>ts. now - real_of_int w < ts"] by simp
    then show ?thesis using False by (simp add: is_allowed_def Let_def par)
  qed
  have so: "k \<noteq> key \<Longrightarrow> stored (requests (snd (is_allowed ?rl key now))) k = stored (requests ?rl) k"
    by (simp add: is_allowed_def Let_def)
  have s: "stored (requests (snd (is_allowed ?rl key now))) k =
            (if k = key \<and> fst (is_allowed ?rl key now) then ?purged @ [now] else stored (requests ?rl) k)"
    using sk so by (cases "k = key") simp_all
  have any: "requests (snd (is_allowed rl0 key now)) =
        (if fst (is_allowed rl0 key now)
         then (purge rl0 key now)(key \<mapsto> stored (purge rl0 key now) key @ [now])
         else purge rl0 key now)"
    by (simp add: is_allowed_def Let_def)
  show ?thesis using b s any par by (simp add: Let_def)
qed

text \<open>
  Claim C4, as the code has it. \<open>reset_time\<close> reads the stored list without purging it:
  it returns the first stored timestamp plus the window when the list is not empty and
  none when it is empty. Right after a \<open>remaining\<close> call at time \<open>now\<close> (the order of the
  webhook route) the stored list is the purged one, so the result is the oldest timestamp
  of the trailing window plus the window, or none when no stored timestamp is in the window.
\<close>

theorem reset_time_stored:
  "fst (reset_time rl key) =
     (case stored (requests rl) key of [] \<Rightarrow> None
      | t0 # _ \<Rightarrow> Some (t0 + real_of_int (window_seconds rl)))
   \<and> fst (reset_time (snd (remaining rl key now)) key) =
     (case filter (\<lambda>ts. now - real_of_int (window_seconds rl) < ts) (stored (requests rl) key) of
        [] \<Rightarrow> None
      | t0 # _ \<Rightarrow> Some (t0 + real_of_int (window_seconds rl)))"
proof -
  have 1: "fst (reset_time r key) =
     (case stored (requests r) key of [] \<Rightarrow> None
      | t0 # _ \<Rightarrow> Some (t0 + real_of_int (window_seconds r)))" for r
    by (simp add: reset_time_def stored_def split: option.splits list.splits)
  have 2: "stored (requests (snd (remaining rl key now))) key =
       filter (\<lambda>ts. now - real_of_int (window_seconds rl) < ts) (stored (requests rl) key)"
    by (simp add: remaining_def Let_def)
  show ?thesis using 1 [of rl] 1 [of "snd (remaining rl key now)"]
    by (simp add: 2 cong: list.case_cong)
qed

text \<open>
  The claim as stated fails: one admission at time 0 with a 60-second window; at time 1000
  no stored timestamp lies in the trailing window, yet \<open>reset_time\<close> returns 60, not none.
\<close>

theorem reset_time_stale_counterexample:
  "filter (in_window 60 1000)
     (stored (requests (snd (is_allowed (RateLimiter 1 60) (lit ''k'') 0))) (lit ''k'')) = []
   \<and> fst (reset_time (snd (is_allowed (RateLimiter 1 60) (lit ''k'') 0)) (lit ''k'')) = Some 60"
  by (simp add: is_allowed_def RateLimiter_def purge_def stored_def reset_time_def Let_def in_window_def)

section \<open>Properties of the webhook routes\<close>

lemma send_error_notification_result:
  "fst (send_error_notification self post payload error_id w) =
     (post (format_message self payload error_id) = Response 200 (Json True))"
  by (auto simp add: send_error_notification_def Let_def
      split: post_result.splits response_body.splits)

lemma send_error_notification_world:
  "snd (send_error_notification self post payload error_id w) =
     w\<lparr>posts := posts w @ [format_message self payload error_id]\<rparr>"
  by (simp add: send_error_notification_def Let_def
      split: post_result.splits response_body.splits)

lemma receive_error_denied:
  assumes "\<not> fst (is_allowed (limiter w) (rate_key payload) now1)"
  shows "receive_error self post token_hex payload now1 now2 w =
     (RateLimited
        (fst (remaining (snd (is_allowed (limiter w) (rate_key payload) now1))
                (rate_key payload) now2))
        (fst (reset_time
                (snd (remaining (snd (is_allowed (limiter w) (rate_key payload) now1))
                        (rate_key payload) now2))
                (rate_key payload))),
      w\<lparr>limiter :=
           snd (reset_time
                  (snd (remaining (snd (is_allowed (limiter w) (rate_key payload) now1))
                          (rate_key payload) now2))
                  (rate_key payload))\<rparr>)"
proof -
  obtain rl1 where a: "is_allowed (limiter w) (rate_key payload) now1 = (False, rl1)"
    using assms by (cases "is_allowed (limiter w) (rate_key payload) now1") simp
  show ?thesis by (simp add: receive_error_def a split: prod.splits)
qed

lemma receive_error_admitted:
  assumes "fst (is_allowed (limiter w) (rate_key payload) now1)"
  shows "receive_error self post token_hex payload now1 now2 w =
     (if post (format_message self payload (token_hex (ids_generated w))) = Response 200 (Json True)
      then Delivered (lit ''Error notification delivered successfully'')
             (token_hex (ids_generated w))
      else DeliveryFailed
             (lit ''Failed to deliver notification to Telegram. Check bot configuration.''),
      w\<lparr>limiter := snd (is_allowed (limiter w) (rate_key payload) now1),
        ids_generated := Suc (ids_generated w),
        posts := posts w @ [format_message self payload (token_hex (ids_generated w))]\<rparr>)"
proof -
  obtain rl1 where a: "is_allowed (limiter w) (rate_key payload) now1 = (True, rl1)"
    using assms by (cases "is_allowed (limiter w) (rate_key payload) now1") simp
  let ?w1 = "w\<lparr>limiter := rl1, ids_generated := Suc (ids_generated w)\<rparr>"
  let ?eid = "token_hex (ids_generated w)"
  have g: "generate_error_id token_hex (w\<lparr>limiter := rl1\<rparr>) = (?eid, ?w1)"
    by (simp add: generate_error_id_def)
  obtain sent w2 where s: "send_error_notification self post payload ?eid ?w1 = (sent, w2)"
    by (cases "send_error_notification self post payload ?eid ?w1")
  have s1: "sent = (post (format_message self payload ?eid) = Response 200 (Json True))"
    using send_error_notification_result [of self post payload ?eid ?w1] s by simp
  have s2: "w2 = ?w1\<lparr>posts := posts ?w1 @ [format_message self payload ?eid]\<rparr>"
    using send_error_notification_world [of self post payload ?eid ?w1] s by simp
  show ?thesis by (simp add: receive_error_def a g s s1 [symmetric] s2)
qed

text \<open>
  Claim C6. When the limiter denies the record's key (the fingerprint if present, else
  the global key), \<open>receive_error\<close> returns the rate-limited outcome with \<open>remaining\<close>
  and \<open>reset_time\<close> of that key, draws no error id and posts nothing.
\<close>

theorem rate_limited_no_delivery:
  assumes "\<not> fst (is_allowed (limiter w) (rate_key payload) now1)"
  shows "fst (receive_error self post token_hex payload now1 now2 w) =
           RateLimited
             (fst (remaining (snd (is_allowed (limiter w) (rate_key payload) now1))
                     (rate_key payload) now2))
             (fst (reset_time
                     (snd (remaining (snd (is_allowed (limiter w) (rate_key payload) now1))
                             (rate_key payload) now2))
                     (rate_key payload)))
         \<and> ids_generated (snd (receive_error self post token_hex payload now1 now2 w))
             = ids_generated w
         \<and> posts (snd (receive_error self post token_hex payload now1 now2 w)) = posts w"
  by (simp add: receive_error_denied [OF assms])

theorem rate_limited_no_delivery_witness:
  "\<not> fst (is_allowed (limiter exhausted_world) (rate_key (test_payload example_utcnow)) 1)
   \<and> fst (receive_error example_service (\<lambda>m. Response 200 (Json True)) example_token_hex
            (test_payload example_utcnow) 1 1 exhausted_world) = RateLimited 0 (Some 60)
   \<and> ids_generated (snd (receive_error example_service (\<lambda>m. Response 200 (Json True))
            example_token_hex (test_payload example_utcnow) 1 1 exhausted_world)) = 0
   \<and> posts (snd (receive_error example_service (\<lambda>m. Response 200 (Json True))
            example_token_hex (test_payload example_utcnow) 1 1 exhausted_world)) = []"
proof -
  let ?L = "\<lparr>max_requests = 1, window_seconds = 60, requests = [lit ''global'' \<mapsto> [0::real]]\<rparr>"
  have k: "rate_key (test_payload example_utcnow) = lit ''global''"
    by (simp add: rate_key_def test_payload_def)
  have l: "limiter exhausted_world = ?L"
    by (simp add: exhausted_world_def is_allowed_def RateLimiter_def purge_def stored_def Let_def)
  have a: "is_allowed ?L (lit ''global'') 1 = (False, ?L)"
    by (simp add: is_allowed_def purge_def stored_def Let_def)
  have b: "remaining ?L (lit ''global'') 1 = (0, ?L)"
    by (simp add: remaining_def purge_def stored_def Let_def)
  have c: "reset_time ?L (lit ''global'') = (Some 60, ?L)"
    by (simp add: reset_time_def)
  have h: "\<not> fst (is_allowed (limiter exhausted_world) (rate_key (test_payload example_utcnow)) 1)"
    by (simp add: k l a)
  have i: "ids_generated exhausted_world = 0" and p: "posts exhausted_world = []"
    by (simp_all add: exhausted_world_def)
  show ?thesis
    using h rate_limited_no_delivery [OF h, of example_service "\<lambda>m. Response 200 (Json True)"
        example_token_hex 1]
    by (simp add: k l a b c i p)
qed

text \<open>
  Claim C7. For a record the limiter admits, \<open>receive_error\<close> returns the
  delivery-failed outcome when the HTTP client times out, when the response status is not
  200, and when the response is 200 with a body whose \<open>ok\<close> is not true.
\<close>

theorem delivery_failed:
  assumes "fst (is_allowed (limiter w) (rate_key payload) now1)"
    and "post (format_message self payload (token_hex (ids_generated w))) = TimeoutException
         \<or> (\<exists>status_code body.
               post (format_message self payload (token_hex (ids_generated w)))
                 = Response status_code body \<and> status_code \<noteq> 200)
         \<or> post (format_message self payload (token_hex (ids_generated w)))
             = Response 200 (Json False)"
  shows "fst (receive_error self post token_hex payload now1 now2 w) =
           DeliveryFailed
             (lit ''Failed to deliver notification to Telegram. Check bot configuration.'')"
proof -
  have "post (format_message self payload (token_hex (ids_generated w)))
          \<noteq> Response 200 (Json True)"
    using assms(2) by auto
  then show ?thesis by (simp add: receive_error_admitted [OF assms(1)])
qed

theorem delivery_failed_witness:
  "fst (is_allowed (limiter fresh_world) (rate_key (test_payload example_utcnow)) 0)
   \<and> fst (receive_error example_service (\<lambda>m. TimeoutException) example_token_hex
            (test_payload example_utcnow) 0 0 fresh_world)
       = DeliveryFailed
           (lit ''Failed to deliver notification to Telegram. Check bot configuration.'')
   \<and> fst (receive_error example_service (\<lambda>m. Response 500 NotJson) example_token_hex
            (test_payload example_utcnow) 0 0 fresh_world)
       = DeliveryFailed
           (lit ''Failed to deliver notification to Telegram. Check bot configuration.'')
   \<and> fst (receive_error example_service (\<lambda>m. Response 200 (Json False)) example_token_hex
            (test_payload example_utcnow) 0 0 fresh_world)
       = DeliveryFailed
           (lit ''Failed to deliver notification to Telegram. Check bot configuration.'')"
proof -
  have k: "rate_key (test_payload example_utcnow) = lit ''global''"
    by (simp add: rate_key_def test_payload_def)
  have h: "fst (is_allowed (limiter fresh_world) (rate_key (test_payload example_utcnow)) 0)"
    by (simp add: k fresh_world_def is_allowed_def RateLimiter_def purge_def stored_def Let_def)
  show ?thesis
    using h
      delivery_failed [OF h, of "\<lambda>m. TimeoutException" example_service example_token_hex 0]
      delivery_failed [OF h, of "\<lambda>m. Response 500 NotJson" example_service example_token_hex 0]
      delivery_failed [OF h, of "\<lambda>m. Response 200 (Json False)" example_service
        example_token_hex 0]
    by simp
qed

text \<open>
  Claim C2, as the code has it. \<open>test_notification\<close> builds the fixed record, draws an
  error id and posts the formatted message, whatever the state of the rate limiter, which
  it neither reads nor changes; the outcome is the delivered one exactly when the client
  returns status 200 with a true \<open>ok\<close>, and the delivery-failed one otherwise (the
  classification of \<open>send_error_notification\<close>, shared with \<open>receive_error\<close>).
\<close>

theorem test_notification_path:
  "test_notification self post token_hex utcnow w =
     (if fst (send_error_notification self post (test_payload utcnow)
                (token_hex (ids_generated w)) w)
      then Delivered (lit ''Test notification sent successfully! Check your Telegram.'')
             (token_hex (ids_generated w))
      else DeliveryFailed
             (lit ''Failed to send test notification. Verify TELEGRAM_BOT_TOKEN and TELEGRAM_CHAT_ID.''),
      w\<lparr>ids_generated := Suc (ids_generated w),
        posts := posts w @ [format_message self (test_payload utcnow) (token_hex (ids_generated w))]\<rparr>)
   \<and> limiter (snd (test_notification self post token_hex utcnow w)) = limiter w
   \<and> fst (send_error_notification self post (test_payload utcnow) (token_hex (ids_generated w)) w)
       = (post (format_message self (test_payload utcnow) (token_hex (ids_generated w)))
            = Response 200 (Json True))"
proof -
  let ?eid = "token_hex (ids_generated w)"
  let ?w1 = "w\<lparr>ids_generated := Suc (ids_generated w)\<rparr>"
  let ?p = "test_payload utcnow"
  have g: "generate_error_id token_hex w = (?eid, ?w1)"
    by (simp add: generate_error_id_def)
  obtain sent w2 where s: "send_error_notification self post ?p ?eid ?w1 = (sent, w2)"
    by (cases "send_error_notification self post ?p ?eid ?w1")
  have r: "fst (send_error_notification self post ?p ?eid w')
             = (post (format_message self ?p ?eid) = Response 200 (Json True))" for w'
    by (rule send_error_notification_result)
  have s1: "sent = fst (send_error_notification self post ?p ?eid w)"
    using r [of ?w1] r [of w] s by simp
  have s2: "w2 = ?w1\<lparr>posts := posts ?w1 @ [format_message self ?p ?eid]\<rparr>"
    using send_error_notification_world [of self post ?p ?eid ?w1] s by simp
  have 1: "test_notification self post token_hex utcnow w =
     (if fst (send_error_notification self post ?p ?eid w)
      then Delivered (lit ''Test notification sent successfully! Check your Telegram.'') ?eid
      else DeliveryFailed
             (lit ''Failed to send test notification. Verify TELEGRAM_BOT_TOKEN and TELEGRAM_CHAT_ID.''),
      w\<lparr>ids_generated := Suc (ids_generated w),
        posts := posts w @ [format_message self ?p ?eid]\<rparr>)"
    by (simp add: test_notification_def g s s1 [symmetric] s2)
  show ?thesis using r [of w] by (simp add: 1)
qed

text \<open>
  The claim as stated fails: with the window of the global key exhausted, the normal route
  denies the same record, yet the test route posts its message and reports delivery.
\<close>

theorem test_notification_not_limited_counterexample:
  "fst (receive_error example_service (\<lambda>m. Response 200 (Json True)) example_token_hex
          (test_payload example_utcnow) 1 1 exhausted_world) = RateLimited 0 (Some 60)
   \<and> fst (test_notification example_service (\<lambda>m. Response 200 (Json True)) example_token_hex
          example_utcnow exhausted_world)
       = Delivered (lit ''Test notification sent successfully! Check your Telegram.'')
           (example_token_hex 0)
   \<and> length (posts (snd (test_notification example_service (\<lambda>m. Response 200 (Json True))
          example_token_hex example_utcnow exhausted_world))) = 1"
proof -
  have k: "rate_key (test_payload example_utcnow) = lit ''global''"
    by (simp add: rate_key_def test_payload_def)
  have l: "limiter exhausted_world =
             \<lparr>max_requests = 1, window_seconds = 60, requests = [lit ''global'' \<mapsto> [0]]\<rparr>"
    by (simp add: exhausted_world_def is_allowed_def RateLimiter_def purge_def stored_def Let_def)
  have h: "\<not> fst (is_allowed (limiter exhausted_world) (rate_key (test_payload example_utcnow)) 1)"
    by (simp add: k l is_allowed_def purge_def stored_def Let_def)
  have 1: "fst (receive_error example_service (\<lambda>m. Response 200 (Json True)) example_token_hex
          (test_payload example_utcnow) 1 1 exhausted_world) = RateLimited 0 (Some 60)"
    by (simp add: receive_error_denied [OF h])
       (simp add: k l is_allowed_def remaining_def reset_time_def purge_def stored_def Let_def)
  have 2: "generate_error_id example_token_hex exhausted_world
             = (example_token_hex 0, exhausted_world\<lparr>ids_generated := 1\<rparr>)"
    by (simp add: generate_error_id_def exhausted_world_def)
  have 3: "test_notification example_service (\<lambda>m. Response 200 (Json True)) example_token_hex
          example_utcnow exhausted_world
       = (Delivered (lit ''Test notification sent successfully! Check your Telegram.'')
           (example_token_hex 0),
          exhausted_world\<lparr>ids_generated := 1,
            posts := posts exhausted_world
              @ [format_message example_service (test_payload example_utcnow) (example_token_hex 0)]\<rparr>)"
    by (simp add: test_notification_def 2 send_error_notification_def Let_def)
  have 4: "posts exhausted_world = []" by (simp add: exhausted_world_def)
  show ?thesis using 1 by (simp add: 3 4)
qed

section \<open>Properties of the formatter\<close>

lemma length_lit [simp]: "length (lit s) = length s"
  by (simp add: lit_def)

lemma replace_char_append [simp]:
  "replace_char c r (xs @ ys) = replace_char c r xs @ replace_char c r ys"
  by (simp add: replace_char_def)

lemma replace_char_absent: "c \<notin> set s \<Longrightarrow> replace_char c r s = s"
  by (induction s) (auto simp: replace_char_def)

lemma escape_append [simp]: "escape (xs @ ys) = escape xs @ escape ys"
  by (simp add: escape_def)

lemma escape_plain: "38 \<notin> set s \<Longrightarrow> 60 \<notin> set s \<Longrightarrow> 62 \<notin> set s \<Longrightarrow> escape s = s"
  by (simp add: escape_def replace_char_absent)

lemma escape_replicate_a [simp]: "escape (replicate n 97) = replicate n 97"
  by (rule escape_plain) auto

lemma escape_amp: "escape (lit ''&'') = lit ''&amp;''"
  by (simp add: escape_def replace_char_def lit_def)

lemma strftime_example: "strftime example_utcnow = lit ''2024-01-02 03:04:05 UTC''"
  by code_simp

lemma header_example:
  "header_line (minimal_payload msg) (example_token_hex 0)
     = [0x1F7E0] @ lit '' <b>ERROR</b> | <code>0123456789abcdef01234567</code>''"
  by (simp add: header_line_def minimal_payload_def example_token_hex_def get_default_def
      SEVERITY_EMOJI_def SEVERITY_LABEL_def Let_def lit_def)

lemma if_str_simps [simp]:
  "if_str None g = []"
  "if_str (Some s) g = (if s \<noteq> [] then g s else [])"
  by (simp_all add: if_str_def)

lemma if_some_simps [simp]:
  "if_some None g = []"
  "if_some (Some v) g = g v"
  by (simp_all add: if_some_def)

lemma footer_minimal:
  "footer_parts (minimal_payload msg) = [lit ''<i>2024-01-02 03:04:05 UTC</i>'']"
  by (simp add: footer_parts_def minimal_payload_def strftime_example lit_def)

lemma message_parts_minimal:
  "message_parts example_service (minimal_payload msg) (example_token_hex 0) =
     [[0x1F7E0] @ lit '' <b>ERROR</b> | <code>0123456789abcdef01234567</code>'', [],
      lit ''<b>Message:</b> '' @ escape msg, [],
      lit ''<i>2024-01-02 03:04:05 UTC</i>'']"
  unfolding message_parts_def header_parts_def header_example footer_minimal
  by (simp add: minimal_payload_def error_parts_def location_block_def location_parts_def
      block_def app_lines_def tags_parts_def metadata_parts_def stacktrace_parts_def)

lemma message_parts_long:
  "message_parts example_service long_payload (example_token_hex 0) =
     [[0x1F7E0] @ lit '' <b>ERROR</b> | <code>0123456789abcdef01234567</code>'', [],
      lit ''<b>Message:</b> '' @ replicate 4000 97, [],
      lit ''<i>2024-01-02 03:04:05 UTC</i>'']"
  by (simp add: long_payload_def message_parts_minimal)

lemma format_message_long:
  "format_message example_service long_payload (example_token_hex 0) =
     [0x1F7E0] @ lit '' <b>ERROR</b> | <code>0123456789abcdef01234567</code>'' @ nl @ nl
     @ lit ''<b>Message:</b> '' @ replicate 4000 97 @ nl @ nl @ lit ''<i>202''
     @ nl @ nl @ lit ''... (truncated)''"
  by (simp add: format_message_def message_parts_long Let_def)
     (simp add: lit_def nl_def)

lemma format_message_length:
  "length (format_message self payload error_id) =
     (if length (join nl (message_parts self payload error_id)) > 4096 then 4097
      else length (join nl (message_parts self payload error_id)))"
  by (simp add: format_message_def Let_def nl_def)

text \<open>
  Claim C1 fails on the code. A record whose message has 4000 characters (the longest
  the payload validation admits) and no optional field is assembled to 4104 characters,
  cut to 4080 and extended by the 17 characters of the marker: the formatted message has
  4097 characters, one more than the limit of 4096 that the source names.
\<close>

theorem format_message_exceeds_limit:
  "length (join nl (message_parts example_service long_payload (example_token_hex 0))) = 4104
   \<and> length (format_message example_service long_payload (example_token_hex 0)) = 4097"
  by (simp add: format_message_length message_parts_long nl_def)

lemma join_append:
  "xs \<noteq> [] \<Longrightarrow> ys \<noteq> [] \<Longrightarrow> join sep (xs @ ys) = join sep xs @ sep @ join sep ys"
  by (induction sep xs rule: join.induct) (auto simp: neq_Nil_conv)

lemma footer_parts_nonempty: "footer_parts payload \<noteq> []"
  by (simp add: footer_parts_def)

lemma prefix_take: "prefix h m \<Longrightarrow> length h \<le> n \<Longrightarrow> prefix h (take n m)"
  by (auto simp: prefix_def)

lemma header_prefix:
  "prefix (header_line payload error_id) (join nl (message_parts self payload error_id))"
proof -
  obtain rest where "message_parts self payload error_id
      = header_line payload error_id # [] # rest"
    by (simp add: message_parts_def header_parts_def)
  then show ?thesis by simp
qed

lemma footer_suffix:
  "suffix (join nl (footer_parts payload)) (join nl (message_parts self payload error_id))"
proof -
  obtain front where m: "message_parts self payload error_id = front @ footer_parts payload"
    and f: "front \<noteq> []"
    by (simp add: message_parts_def header_parts_def)
  show ?thesis
    unfolding m using join_append [OF f footer_parts_nonempty, of nl]
    by (simp add: suffix_def)
qed

text \<open>
  Claim C5, as the code has it. Whatever the metadata and stacktrace ceilings, the
  assembled message starts with the whole header line and ends with the whole footer
  (timestamp line and fingerprint line). The final cut keeps the first 4080 characters:
  the header line survives it whenever it has at most 4080 characters, and the footer is
  kept whole when the assembled message has at most 4096 characters, as nothing is cut then.
\<close>

theorem header_footer_kept:
  "prefix (header_line payload error_id) (join nl (message_parts self payload error_id))
   \<and> suffix (join nl (footer_parts payload)) (join nl (message_parts self payload error_id))
   \<and> (length (header_line payload error_id) \<le> 4080 \<longrightarrow>
        prefix (header_line payload error_id) (format_message self payload error_id))
   \<and> (length (join nl (message_parts self payload error_id)) \<le> 4096 \<longrightarrow>
        format_message self payload error_id = join nl (message_parts self payload error_id)
        \<and> suffix (join nl (footer_parts payload)) (format_message self payload error_id))"
proof -
  let ?m = "join nl (message_parts self payload error_id)"
  have p: "prefix (header_line payload error_id) ?m" by (rule header_prefix)
  have s: "suffix (join nl (footer_parts payload)) ?m" by (rule footer_suffix)
  have c: "prefix (header_line payload error_id) (format_message self payload error_id)"
    if "length (header_line payload error_id) \<le> 4080"
  proof (cases "length ?m > 4096")
    case True
    have "prefix (header_line payload error_id) (take 4080 ?m)"
      using p that by (rule prefix_take)
    then show ?thesis using True by (simp add: format_message_def Let_def)
  next
    case False
    then show ?thesis using p by (simp add: format_message_def Let_def)
  qed
  have u: "format_message self payload error_id = ?m" if "length ?m \<le> 4096"
    using that by (simp add: format_message_def Let_def)
  show ?thesis using p s c u by simp
qed

lemma escape_boom: "escape (lit ''boom'') = lit ''boom''"
  by (rule escape_plain) (simp_all add: lit_def)

theorem header_footer_kept_witness:
  "length (header_line (minimal_payload (lit ''boom'')) (example_token_hex 0)) \<le> 4080
   \<and> length (join nl (message_parts example_service (minimal_payload (lit ''boom''))
                (example_token_hex 0))) \<le> 4096
   \<and> prefix (header_line (minimal_payload (lit ''boom'')) (example_token_hex 0))
        (format_message example_service (minimal_payload (lit ''boom'')) (example_token_hex 0))
   \<and> suffix (join nl (footer_parts (minimal_payload (lit ''boom''))))
        (format_message example_service (minimal_payload (lit ''boom'')) (example_token_hex 0))"
proof -
  have 1: "length (header_line (minimal_payload (lit ''boom'')) (example_token_hex 0)) \<le> 4080"
    by (simp add: header_example)
  have 2: "length (join nl (message_parts example_service (minimal_payload (lit ''boom''))
                (example_token_hex 0))) \<le> 4096"
    by (simp add: message_parts_minimal escape_boom nl_def)
  show ?thesis
    using 1 2 header_footer_kept [of "minimal_payload (lit ''boom'')" "example_token_hex 0"
        example_service]
    by simp
qed

text \<open>
  The claim as stated fails: for the record with a 4000-character message the final cut
  falls inside the timestamp line. The formatted message ends with \<open><i>202\<close> and the
  marker; the footer is not part of it.
\<close>

theorem footer_cut_counterexample:
  "join nl (footer_parts long_payload) = lit ''<i>2024-01-02 03:04:05 UTC</i>''
   \<and> suffix (lit ''<i>202'' @ nl @ nl @ lit ''... (truncated)'')
        (format_message example_service long_payload (example_token_hex 0))
   \<and> \<not> sublist (join nl (footer_parts long_payload))
        (format_message example_service long_payload (example_token_hex 0))"
proof -
  have 1: "join nl (footer_parts long_payload) = lit ''<i>2024-01-02 03:04:05 UTC</i>''"
    by (simp add: long_payload_def footer_minimal)
  have 2: "suffix (lit ''<i>202'' @ nl @ nl @ lit ''... (truncated)'')
        (format_message example_service long_payload (example_token_hex 0))"
    by (rule suffixI [of _ "[0x1F7E0] @ lit '' <b>ERROR</b> | <code>0123456789abcdef01234567</code>''
          @ nl @ nl @ lit ''<b>Message:</b> '' @ replicate 4000 97 @ nl @ nl"])
       (simp add: format_message_long)
  have 3: "85 \<in> set (join nl (footer_parts long_payload))"
    by (simp add: 1 lit_def)
  have 4: "85 \<notin> set (format_message example_service long_payload (example_token_hex 0))"
    by (simp add: format_message_long lit_def nl_def)
  have 5: "\<not> sublist (join nl (footer_parts long_payload))
        (format_message example_service long_payload (example_token_hex 0))"
    using 3 4 set_mono_sublist by blast
  show ?thesis using 1 2 5 by simp
qed

subsection \<open>Escaping and the metadata cut\<close>

lemma escape_Cons:
  "escape (c # s) =
     (if c = 38 then lit ''&amp;'' else if c = 60 then lit ''&lt;''
      else if c = 62 then lit ''&gt;'' else [c]) @ escape s"
  by (simp add: escape_def replace_char_def lit_def)

lemma escape_Nil [simp]: "escape [] = []"
  by (simp add: escape_def replace_char_def)

text \<open>What \<open>escape\<close> returns is escaped text.\<close>

lemma well_escaped_escape: "well_escaped (escape s)"
  by (induction s) (simp_all add: escape_Cons lit_def)

lemma well_escaped_appendD: "well_escaped (xs @ ys) \<Longrightarrow> well_escaped ys"
  by (induction xs) (simp_all split: if_splits)

lemma escape_k: "escape (lit ''k'') = lit ''k''"
  by (rule escape_plain) (simp_all add: lit_def)

lemma metadata_parts_amp:
  "metadata_parts example_service amp_payload =
     [lit ''<b>Metadata</b>'',
      lit ''<pre>  k: '' @ replicate 993 97 @ lit ''&a'' @ nl @ lit ''  ... (truncated)</pre>'',
      []]"
  by (simp add: metadata_parts_def amp_payload_def minimal_payload_def example_service_def
      escape_k escape_amp slice_to_def Let_def)
     (simp add: lit_def)

lemma message_parts_amp:
  "message_parts example_service amp_payload (example_token_hex 0) =
     [[0x1F7E0] @ lit '' <b>ERROR</b> | <code>0123456789abcdef01234567</code>'', [],
      lit ''<b>Message:</b> boom'', [],
      lit ''<b>Metadata</b>'',
      lit ''<pre>  k: '' @ replicate 993 97 @ lit ''&a'' @ nl @ lit ''  ... (truncated)</pre>'',
      [],
      lit ''<i>2024-01-02 03:04:05 UTC</i>'']"
proof -
  have h: "header_line amp_payload (example_token_hex 0)
     = [0x1F7E0] @ lit '' <b>ERROR</b> | <code>0123456789abcdef01234567</code>''"
    by (simp add: header_line_def amp_payload_def minimal_payload_def example_token_hex_def
        get_default_def SEVERITY_EMOJI_def SEVERITY_LABEL_def Let_def lit_def)
  have f: "footer_parts amp_payload = [lit ''<i>2024-01-02 03:04:05 UTC</i>'']"
    by (simp add: footer_parts_def amp_payload_def minimal_payload_def strftime_example lit_def)
  show ?thesis
    unfolding message_parts_def header_parts_def h f metadata_parts_amp
    by (simp add: amp_payload_def minimal_payload_def error_parts_def location_block_def
        location_parts_def block_def app_lines_def tags_parts_def stacktrace_parts_def
        escape_boom)
       (simp add: lit_def)
qed

lemma format_message_amp:
  "format_message example_service amp_payload (example_token_hex 0) =
     ([0x1F7E0] @ lit '' <b>ERROR</b> | <code>0123456789abcdef01234567</code>'' @ nl @ nl
      @ lit ''<b>Message:</b> boom'' @ nl @ nl @ lit ''<b>Metadata</b>'' @ nl
      @ lit ''<pre>  k: '' @ replicate 993 97)
     @ (lit ''&a'' @ nl @ lit ''  ... (truncated)</pre>'' @ nl @ nl
        @ lit ''<i>2024-01-02 03:04:05 UTC</i>'')"
  by (simp add: format_message_def message_parts_amp Let_def nl_def)

text \<open>
  Claim C9 fails on the code. The metadata text is escaped first and cut afterwards, so
  the cut can fall inside an entity. For the metadata \<open>{"k": "a...a&"}\<close> (993 letters and
  an ampersand) under the default ceiling of 1000, \<open>&amp;\<close> is cut after \<open>&a\<close>: the
  ampersand of the value reaches the formatted message followed by a letter and the
  marker, not as \<open>&amp;\<close>, and the message is not escaped text.
\<close>

theorem metadata_cut_splits_entity:
  "metadata_parts example_service amp_payload =
     [lit ''<b>Metadata</b>'',
      lit ''<pre>  k: '' @ replicate 993 97 @ lit ''&a'' @ nl @ lit ''  ... (truncated)</pre>'',
      []]
   \<and> \<not> well_escaped (format_message example_service amp_payload (example_token_hex 0))"
proof -
  have "\<not> well_escaped (lit ''&a'' @ nl @ lit ''  ... (truncated)</pre>'' @ nl @ nl
        @ lit ''<i>2024-01-02 03:04:05 UTC</i>'')"
    by (simp add: lit_def nl_def)
  then have "\<not> well_escaped (format_message example_service amp_payload (example_token_hex 0))"
    unfolding format_message_amp using well_escaped_appendD by blast
  then show ?thesis by (simp add: metadata_parts_amp)
qed

end
